theory Spec2Isabelle
  imports Main "HOL-Library.Multiset"
begin

section \<open>The inheritance inliner of the transpiler: data model\<close>

text \<open>
  The pass rewrites a mutable syntax tree in place. The model keeps the tree as a value:
  the compilation unit is the list of its contract definitions, a contract is referred to
  by its id (the source compares node objects, and ids are unique per node), and every
  operation returns the updated tree. Nodes that are referenced by id (contracts,
  functions, variables, modifiers) carry their id; expression and statement nodes do not,
  so the ids the source reserves for them are not represented.
\<close>

datatype FunctionKind = Constructor | Function | Receive | Fallback | Free

datatype FunctionVisibility = External | Public | Internal | Private | Default

datatype FunctionStateMutability = Pure | View | Constant | Payable | NonPayable

text \<open>
  \<open>Identifier name referencedDeclaration\<close>, \<open>MemberAccess expression memberName
  referencedDeclaration\<close>, \<open>FunctionCall callee arguments\<close>; every other kind of
  expression is \<open>OtherExpression label children\<close>.
\<close>

datatype Expression =
    Identifier string nat
  | MemberAccess Expression string nat
  | FunctionCall Expression "Expression list"
  | OtherExpression string "Expression list"

datatype Statement =
    ExpressionStatement Expression
  | Return "Expression option"
  | OtherStatement string "Expression list" "Statement list"

record VariableDeclaration =
  v_id :: nat
  v_name :: string
  v_typeString :: string
  v_scope :: nat
  v_vValue :: "Expression option"

text \<open>A modifier invocation: the name node (an identifier or an identifier path, with the
  declaration it refers to) and the argument expressions.\<close>

record ModifierInvocation =
  mi_name :: string
  mi_referencedDeclaration :: nat
  mi_vArguments :: "Expression list"

record FunctionDefinition =
  f_id :: nat
  f_scope :: nat
  f_kind :: FunctionKind
  f_name :: string
  f_virtual :: bool
  f_visibility :: FunctionVisibility
  f_stateMutability :: FunctionStateMutability
  f_isConstructor :: bool
  f_vParameters :: "VariableDeclaration list"
  f_vReturnParameters :: "VariableDeclaration list"
  f_vModifiers :: "ModifierInvocation list"
  f_vBody :: "Statement list option"

record ModifierDefinition =
  m_id :: nat
  m_name :: string
  m_vBody :: "Statement list option"

text \<open>An inheritance specifier: the base type (name and referenced contract id) and the
  constructor arguments written at the declaration site.\<close>

record InheritanceSpecifier =
  is_name :: string
  is_referencedDeclaration :: nat
  is_vArguments :: "Expression list"

text \<open>
  A contract's children are kept as one list per kind, each in child order:
  \<open>appendChild\<close> adds at the end of the list of the child's kind and
  \<open>insertAtBeginning\<close> at its front. \<open>c_linearizedBaseContracts\<close> holds ids, the
  contract itself first.
\<close>

record ContractDefinition =
  c_id :: nat
  c_name :: string
  c_linearizedBaseContracts :: "nat list"
  c_vInheritanceSpecifiers :: "InheritanceSpecifier list"
  c_vFunctions :: "FunctionDefinition list"
  c_vStateVariables :: "VariableDeclaration list"
  c_vModifiers :: "ModifierDefinition list"

text \<open>The tree: the contracts of all roots in order (\<open>ast.roots.flatMap(root => root.vContracts)\<close>)
  and the counter behind \<open>ast.reserveId()\<close>.\<close>

record AST =
  contracts :: "ContractDefinition list"
  nextId :: nat

text \<open>
  The three exception classes the pass can raise, and the \<open>TypeError\<close> of JavaScript for
  reading a property of \<open>undefined\<close> (a linearized base id that names no contract).
  The messages keep the source's literal text and names; the output of \<open>printNode\<close> is
  left out of them.
\<close>

datatype error =
    TranspileFailedError string
  | NotSupportedYetError string
  | AssertionError string
  | TypeError string

subsection \<open>Reading and updating the tree\<close>

definition locate :: "AST \<Rightarrow> nat \<Rightarrow> ContractDefinition option" where
  "locate ast i = find (\<lambda>c. c_id c = i) (contracts ast)"

definition modifyContract :: "AST \<Rightarrow> nat \<Rightarrow> (ContractDefinition \<Rightarrow> ContractDefinition) \<Rightarrow> AST" where
  "modifyContract ast i g = ast\<lparr>contracts := map (\<lambda>c. if c_id c = i then g c else c) (contracts ast)\<rparr>"

definition reserveId :: "AST \<Rightarrow> nat \<times> AST" where
  "reserveId ast = (nextId ast, ast\<lparr>nextId := Suc (nextId ast)\<rparr>)"

definition getBaseContracts :: "ContractDefinition \<Rightarrow> nat list" where
  "getBaseContracts node = tl (c_linearizedBaseContracts node)"

text \<open>\<open>vConstructor\<close> of the syntax-tree library: the first function of constructor kind.\<close>

definition vConstructor :: "ContractDefinition \<Rightarrow> FunctionDefinition option" where
  "vConstructor c = find (\<lambda>f. f_kind f = Constructor) (c_vFunctions c)"

subsection \<open>Constructor arguments: \<open>getArguments\<close>\<close>

text \<open>The \<open>args\<close> table maps a contract id to the argument expressions collected for its
  constructor.\<close>

type_synonym argsTable = "nat \<Rightarrow> Expression list option"

text \<open>One round of the first loop: a modifier invocation of the constructor that names a
  contract records its arguments for that contract.\<close>

definition recordInvocation :: "AST \<Rightarrow> argsTable \<Rightarrow> ModifierInvocation \<Rightarrow> argsTable" where
  "recordInvocation ast args modInvocation =
     (case locate ast (mi_referencedDeclaration modInvocation) of
        Some contractDef \<Rightarrow> args(c_id contractDef \<mapsto> mi_vArguments modInvocation)
      | None \<Rightarrow> args)"

text \<open>One round of the second loop, over the inheritance specifiers of the contract.\<close>

definition recordSpecifier :: "argsTable \<Rightarrow> InheritanceSpecifier \<Rightarrow> argsTable" where
  "recordSpecifier args specifier =
     (let contractId = is_referencedDeclaration specifier;
          argList = args contractId
      in if argList = None \<or> length (the argList) < length (is_vArguments specifier)
         then args(contractId \<mapsto> is_vArguments specifier)
         else args)"

definition getArguments ::
  "AST \<Rightarrow> ContractDefinition \<Rightarrow> FunctionDefinition option \<Rightarrow> argsTable \<Rightarrow> argsTable" where
  "getArguments ast contract constructorFunc args =
     foldl recordSpecifier
       (case constructorFunc of
          Some cf \<Rightarrow> foldl (recordInvocation ast) args (f_vModifiers cf)
        | None \<Rightarrow> args)
       (c_vInheritanceSpecifiers contract)"

subsection \<open>Helpers: decimal numerals, the ordered collections of JavaScript, cloning\<close>

definition digit_char :: "nat \<Rightarrow> char" where
  "digit_char d = ''0123456789'' ! d"

text \<open>The decimal text a template string gives for a number.\<close>

function string_of_nat :: "nat \<Rightarrow> string" where
  "string_of_nat n =
     (if n < 10 then [digit_char n]
      else string_of_nat (n div 10) @ [digit_char (n mod 10)])"
  by pat_completeness auto
termination
  by (relation "measure id") auto

declare string_of_nat.simps [simp del]

text \<open>A \<open>Set\<close> of JavaScript iterates in insertion order: it is the list of its members in
  that order, and \<open>add\<close> of a member already present changes nothing.\<close>

definition jsSet_add :: "'a list \<Rightarrow> 'a \<Rightarrow> 'a list" where
  "jsSet_add s x = (if x \<in> set s then s else s @ [x])"

text \<open>A \<open>Map\<close> of JavaScript that is iterated: the list of its entries in insertion order.
  \<open>set\<close> of a key already present replaces the value where the entry stands; a new key is
  added at the end.\<close>

fun jsMap_set :: "('k \<times> 'v) list \<Rightarrow> 'k \<Rightarrow> 'v \<Rightarrow> ('k \<times> 'v) list" where
  "jsMap_set [] k v = [(k, v)]"
| "jsMap_set ((k', v') # m) k v =
     (if k' = k then (k, v) # m else (k', v') # jsMap_set m k v)"

text \<open>
  Modelled from the spec: \<open>cloneASTNode\<close> (utils/cloning) is not among the sources. The
  spec has cloning as a deep copy that always allocates fresh ids from the one counter.
  The copy of a declaration keeps its content and takes the next id; the parameters of a
  function are declarations and take fresh ids too. Statements and expressions carry no
  id here, so their copies are the statements and expressions themselves.
\<close>

definition cloneVariableDeclaration ::
  "VariableDeclaration \<Rightarrow> AST \<Rightarrow> VariableDeclaration \<times> AST" where
  "cloneVariableDeclaration v ast = (v\<lparr>v_id := nextId ast\<rparr>, ast\<lparr>nextId := Suc (nextId ast)\<rparr>)"

fun cloneParameterList ::
  "VariableDeclaration list \<Rightarrow> AST \<Rightarrow> VariableDeclaration list \<times> AST" where
  "cloneParameterList [] ast = ([], ast)"
| "cloneParameterList (p # ps) ast =
     (case cloneVariableDeclaration p ast of
        (p', ast1) \<Rightarrow>
          (case cloneParameterList ps ast1 of (ps', ast2) \<Rightarrow> (p' # ps', ast2)))"

definition cloneFunctionDefinition ::
  "FunctionDefinition \<Rightarrow> AST \<Rightarrow> FunctionDefinition \<times> AST" where
  "cloneFunctionDefinition f ast =
     (case reserveId ast of
        (i, ast1) \<Rightarrow>
          (case cloneParameterList (f_vParameters f) ast1 of
             (ps, ast2) \<Rightarrow>
               (case cloneParameterList (f_vReturnParameters f) ast2 of
                  (rs, ast3) \<Rightarrow>
                    (f\<lparr>f_id := i, f_vParameters := ps, f_vReturnParameters := rs\<rparr>, ast3))))"

definition cloneModifierDefinition ::
  "ModifierDefinition \<Rightarrow> AST \<Rightarrow> ModifierDefinition \<times> AST" where
  "cloneModifierDefinition m ast = (m\<lparr>m_id := nextId ast\<rparr>, ast\<lparr>nextId := Suc (nextId ast)\<rparr>)"

text \<open>Modelled from the spec: \<open>isExternallyVisible\<close> (utils/utils) is not among the
  sources; the spec has the externally callable functions as the public and external ones.\<close>

definition isExternallyVisible :: "FunctionDefinition \<Rightarrow> bool" where
  "isExternallyVisible func = (f_visibility func = External \<or> f_visibility func = Public)"

text \<open>Modelled from the spec: \<open>createIdentifier\<close> (utils/nodeTemplates) is not among the
  sources; it builds the identifier that refers to a variable declaration.\<close>

definition createIdentifier :: "VariableDeclaration \<Rightarrow> Expression" where
  "createIdentifier v = Identifier (v_name v) (v_id v)"

text \<open>Modelled from the spec: \<open>generateFunctionCall\<close> (utils/functionGeneration) is not among
  the sources; it builds the call of a function definition with the given arguments.\<close>

definition generateFunctionCall :: "FunctionDefinition \<Rightarrow> Expression list \<Rightarrow> Expression" where
  "generateFunctionCall func args = FunctionCall (Identifier (f_name func) (f_id func)) args"

subsection \<open>The visible interface and name resolution\<close>

definition visibleFunctions :: "ContractDefinition \<Rightarrow> string list" where
  "visibleFunctions node =
     foldl jsSet_add []
       (map f_name
          (filter (\<lambda>func. isExternallyVisible func \<and> \<not> f_isConstructor func)
             (c_vFunctions node)))"

text \<open>
  \<open>squashInterface\<close> and \<open>resolveFunctionName\<close> recurse into the first base contract, which
  the tree gives by id. Nothing bounds that recursion when the linearizations are cyclic:
  the value \<open>None\<close> stands for a call that never returns.
\<close>

partial_function (option) squashInterface ::
  "AST \<Rightarrow> ContractDefinition \<Rightarrow> (error + string list) option" where
  "squashInterface ast node =
     (case getBaseContracts node of
        [] \<Rightarrow> Some (Inr (visibleFunctions node))
      | b # bs \<Rightarrow>
          (case locate ast b of
             None \<Rightarrow> Some (Inl (TypeError ''Cannot read properties of undefined''))
           | Some base \<Rightarrow>
               Option.bind (squashInterface ast base)
                 (\<lambda>r. Some (case r of
                              Inl e \<Rightarrow> Inl e
                            | Inr inheritedVisibleFunctions \<Rightarrow>
                                Inr (foldl jsSet_add (visibleFunctions node)
                                       inheritedVisibleFunctions)))))"

partial_function (option) resolveFunctionName ::
  "AST \<Rightarrow> ContractDefinition \<Rightarrow> string \<Rightarrow> (error + FunctionDefinition) option" where
  "resolveFunctionName ast node functionName =
     (if length (filter (\<lambda>f. f_name f = functionName) (c_vFunctions node)) > 1
      then Some (Inl (TranspileFailedError
             (''InheritanceInliner expects unique function names, was IdentifierManger run? Found multiple ''
                @ functionName @ '' in '' @ c_name node)))
      else if length (filter (\<lambda>f. f_name f = functionName) (c_vFunctions node)) = 1
      then Some (Inr (hd (filter (\<lambda>f. f_name f = functionName) (c_vFunctions node))))
      else (case getBaseContracts node of
              [] \<Rightarrow> Some (Inl (TranspileFailedError
                       (''Failed to find '' @ functionName @ '' in '' @ c_name node)))
            | b # bs \<Rightarrow>
                (case locate ast b of
                   None \<Rightarrow> Some (Inl (TypeError ''Cannot read properties of undefined''))
                 | Some base \<Rightarrow> resolveFunctionName ast base functionName)))"

declare squashInterface.simps [code]
declare resolveFunctionName.simps [code]

subsection \<open>Delegating functions\<close>

definition createDelegatingFunction ::
  "FunctionDefinition \<Rightarrow> FunctionDefinition \<Rightarrow> nat \<Rightarrow> AST \<Rightarrow> error + FunctionDefinition \<times> AST" where
  "createDelegatingFunction funcToCopy delegate scope ast =
     (case cloneParameterList (f_vParameters funcToCopy) ast of
        (inputParams, ast1) \<Rightarrow>
          (case cloneParameterList (f_vReturnParameters funcToCopy) ast1 of
             (retParams, ast2) \<Rightarrow>
               if f_kind funcToCopy \<noteq> Function
               then Inl (AssertionError
                      (''Attempted to copy non-member function '' @ f_name funcToCopy))
               else if f_isConstructor funcToCopy
               then Inl (NotSupportedYetError ''Inherited constructors is not implemented yet'')
               else (case reserveId ast2 of
                       (i, ast3) \<Rightarrow>
                         Inr (\<lparr>f_id = i,
                               f_scope = scope,
                               f_kind = f_kind funcToCopy,
                               f_name = f_name funcToCopy,
                               f_virtual = f_virtual funcToCopy,
                               f_visibility = f_visibility funcToCopy,
                               f_stateMutability = f_stateMutability funcToCopy,
                               f_isConstructor = f_isConstructor funcToCopy,
                               f_vParameters = inputParams,
                               f_vReturnParameters = retParams,
                               f_vModifiers = f_vModifiers funcToCopy,
                               f_vBody = Some [Return (Some (FunctionCall
                                   (Identifier (f_name delegate) (f_id delegate))
                                   (map createIdentifier inputParams)))]\<rparr>,
                              ast3))))"

subsection \<open>The function flattener\<close>

text \<open>The remapping tables of one contract map an old declaration id to the local clone.\<close>

type_synonym 'd remapping = "nat \<Rightarrow> 'd option"

definition appendFunction :: "AST \<Rightarrow> nat \<Rightarrow> FunctionDefinition \<Rightarrow> AST" where
  "appendFunction ast nodeId func =
     modifyContract ast nodeId (\<lambda>c. c\<lparr>c_vFunctions := c_vFunctions c @ [func]\<rparr>)"

text \<open>The \<open>map\<close> over the non-constructor functions of one base: clone, record, rename,
  make private, rescope.\<close>

fun cloneSuperFunctions ::
  "nat \<Rightarrow> nat \<Rightarrow> FunctionDefinition list \<Rightarrow> FunctionDefinition remapping \<Rightarrow> AST
     \<Rightarrow> FunctionDefinition list \<times> FunctionDefinition remapping \<times> AST" where
  "cloneSuperFunctions nodeId depth [] idRemapping ast = ([], idRemapping, ast)"
| "cloneSuperFunctions nodeId depth (func # funcs) idRemapping ast =
     (case cloneFunctionDefinition func ast of
        (cloned, ast1) \<Rightarrow>
          (let clonedFunction =
                 cloned\<lparr>f_name := f_name cloned @ ''_s'' @ string_of_nat (depth + 1),
                        f_visibility := Private,
                        f_scope := nodeId\<rparr>
           in case cloneSuperFunctions nodeId depth funcs
                     (idRemapping(f_id func \<mapsto> clonedFunction)) ast1 of
                (rest, idRemapping', ast2) \<Rightarrow> (clonedFunction # rest, idRemapping', ast2)))"

text \<open>The loop over the base contracts, \<open>depth\<close> counting from 0. Each base is read when
  its turn comes.\<close>

fun superFunctionsFrom ::
  "nat \<Rightarrow> nat list \<Rightarrow> nat \<Rightarrow> FunctionDefinition remapping \<Rightarrow> AST
     \<Rightarrow> error + FunctionDefinition remapping \<times> AST" where
  "superFunctionsFrom nodeId [] depth idRemapping ast = Inr (idRemapping, ast)"
| "superFunctionsFrom nodeId (b # bs) depth idRemapping ast =
     (case locate ast b of
        None \<Rightarrow> Inl (TypeError ''Cannot read properties of undefined'')
      | Some base \<Rightarrow>
          (case cloneSuperFunctions nodeId depth
                  (filter (\<lambda>func. \<not> f_isConstructor func) (c_vFunctions base)) idRemapping ast of
             (clones, idRemapping', ast1) \<Rightarrow>
               superFunctionsFrom nodeId bs (depth + 1) idRemapping'
                 (foldl (\<lambda>a func. appendFunction a nodeId func) ast1 clones)))"

definition addPrivateSuperFunctions ::
  "AST \<Rightarrow> nat \<Rightarrow> FunctionDefinition remapping
     \<Rightarrow> error + FunctionDefinition remapping \<times> AST" where
  "addPrivateSuperFunctions ast nodeId idRemapping =
     (case locate ast nodeId of
        None \<Rightarrow> Inl (TypeError ''Cannot read properties of undefined'')
      | Some node \<Rightarrow> superFunctionsFrom nodeId (getBaseContracts node) 0 idRemapping ast)"

text \<open>\<open>[...visibleFunctionNames].map((name) => resolveFunctionName(node, name))\<close>: the first
  failing resolution ends the whole.\<close>

fun resolveAll ::
  "AST \<Rightarrow> ContractDefinition \<Rightarrow> string list \<Rightarrow> (error + FunctionDefinition list) option" where
  "resolveAll ast node [] = Some (Inr [])"
| "resolveAll ast node (name # names) =
     (case resolveFunctionName ast node name of
        None \<Rightarrow> None
      | Some (Inl e) \<Rightarrow> Some (Inl e)
      | Some (Inr func) \<Rightarrow>
          (case resolveAll ast node names of
             None \<Rightarrow> None
           | Some (Inl e) \<Rightarrow> Some (Inl e)
           | Some (Inr funcs) \<Rightarrow> Some (Inr (func # funcs))))"

fun moveFunctions ::
  "nat \<Rightarrow> FunctionDefinition remapping \<Rightarrow> FunctionDefinition list \<Rightarrow> AST \<Rightarrow> error + AST" where
  "moveFunctions nodeId idRemapping [] ast = Inr ast"
| "moveFunctions nodeId idRemapping (f # fs) ast =
     (case idRemapping (f_id f) of
        None \<Rightarrow> Inl (AssertionError (''Unable to find inlined base function for '' @ f_name f))
      | Some privateFunc \<Rightarrow>
          (case createDelegatingFunction f privateFunc nodeId ast of
             Inl e \<Rightarrow> Inl e
           | Inr (newFunc, ast1) \<Rightarrow>
               moveFunctions nodeId idRemapping fs (appendFunction ast1 nodeId newFunc)))"

definition addNonoverridenPublicFunctions ::
  "AST \<Rightarrow> nat \<Rightarrow> FunctionDefinition remapping \<Rightarrow> (error + AST) option" where
  "addNonoverridenPublicFunctions ast nodeId idRemapping =
     (case locate ast nodeId of
        None \<Rightarrow> Some (Inl (TypeError ''Cannot read properties of undefined''))
      | Some node \<Rightarrow>
          Option.bind (squashInterface ast node)
            (\<lambda>r. case r of
                   Inl e \<Rightarrow> Some (Inl e)
                 | Inr visibleFunctionNames \<Rightarrow>
                     Option.bind (resolveAll ast node visibleFunctionNames)
                       (\<lambda>r'. case r' of
                               Inl e \<Rightarrow> Some (Inl e)
                             | Inr resolvedVisibleFunctions \<Rightarrow>
                                 Some (moveFunctions nodeId idRemapping
                                         (filter (\<lambda>func. f_scope func \<noteq> c_id node)
                                            resolvedVisibleFunctions)
                                         ast))))"

subsection \<open>The storage flattener\<close>

fun collectInheritedVariables ::
  "AST \<Rightarrow> nat list \<Rightarrow> (string \<times> VariableDeclaration) list
     \<Rightarrow> error + (string \<times> VariableDeclaration) list" where
  "collectInheritedVariables ast [] inheritedVariables = Inr inheritedVariables"
| "collectInheritedVariables ast (b # bs) inheritedVariables =
     (case locate ast b of
        None \<Rightarrow> Inl (TypeError ''Cannot read properties of undefined'')
      | Some base \<Rightarrow>
          collectInheritedVariables ast bs
            (foldl (\<lambda>m decl. jsMap_set m (v_name decl) decl) inheritedVariables
               (c_vStateVariables base)))"

text \<open>\<open>insertAtBeginning\<close> of the syntax-tree library puts the one node in front of all
  children of the contract.\<close>

definition insertAtBeginning :: "AST \<Rightarrow> nat \<Rightarrow> VariableDeclaration \<Rightarrow> AST" where
  "insertAtBeginning ast nodeId newVariable =
     modifyContract ast nodeId (\<lambda>c. c\<lparr>c_vStateVariables := newVariable # c_vStateVariables c\<rparr>)"

fun insertInheritedVariables ::
  "nat \<Rightarrow> VariableDeclaration list \<Rightarrow> VariableDeclaration remapping \<Rightarrow> AST
     \<Rightarrow> VariableDeclaration remapping \<times> AST" where
  "insertInheritedVariables nodeId [] idRemapping ast = (idRemapping, ast)"
| "insertInheritedVariables nodeId (variable # variables) idRemapping ast =
     (case cloneVariableDeclaration variable ast of
        (newVariable, ast1) \<Rightarrow>
          insertInheritedVariables nodeId variables
            (idRemapping(v_id variable \<mapsto> newVariable))
            (insertAtBeginning ast1 nodeId newVariable))"

definition addStorageVariables ::
  "AST \<Rightarrow> nat \<Rightarrow> VariableDeclaration remapping
     \<Rightarrow> error + VariableDeclaration remapping \<times> AST" where
  "addStorageVariables ast nodeId idRemapping =
     (case locate ast nodeId of
        None \<Rightarrow> Inl (TypeError ''Cannot read properties of undefined'')
      | Some node \<Rightarrow>
          (case collectInheritedVariables ast (rev (getBaseContracts node)) [] of
             Inl e \<Rightarrow> Inl e
           | Inr inheritedVariables \<Rightarrow>
               Inr (insertInheritedVariables nodeId (map snd inheritedVariables)
                      idRemapping ast)))"

subsection \<open>The modifier flattener\<close>

definition appendModifier :: "AST \<Rightarrow> nat \<Rightarrow> ModifierDefinition \<Rightarrow> AST" where
  "appendModifier ast nodeId modifier =
     modifyContract ast nodeId (\<lambda>c. c\<lparr>c_vModifiers := c_vModifiers c @ [modifier]\<rparr>)"

fun cloneNewModifiers ::
  "nat \<Rightarrow> ModifierDefinition list \<Rightarrow> string list \<Rightarrow> ModifierDefinition remapping \<Rightarrow> AST
     \<Rightarrow> string list \<times> ModifierDefinition remapping \<times> AST" where
  "cloneNewModifiers nodeId [] modifierNames idRemapping ast = (modifierNames, idRemapping, ast)"
| "cloneNewModifiers nodeId (modifier # modifiers) modifierNames idRemapping ast =
     (if length (jsSet_add modifierNames (m_name modifier)) > length modifierNames
      then (case cloneModifierDefinition modifier ast of
              (clonedModifier, ast1) \<Rightarrow>
                cloneNewModifiers nodeId modifiers (jsSet_add modifierNames (m_name modifier))
                  (idRemapping(m_id modifier \<mapsto> clonedModifier))
                  (appendModifier ast1 nodeId clonedModifier))
      else cloneNewModifiers nodeId modifiers (jsSet_add modifierNames (m_name modifier))
             idRemapping ast)"

fun modifiersFrom ::
  "nat \<Rightarrow> nat list \<Rightarrow> string list \<Rightarrow> ModifierDefinition remapping \<Rightarrow> AST
     \<Rightarrow> error + ModifierDefinition remapping \<times> AST" where
  "modifiersFrom nodeId [] modifierNames idRemapping ast = Inr (idRemapping, ast)"
| "modifiersFrom nodeId (b # bs) modifierNames idRemapping ast =
     (case locate ast b of
        None \<Rightarrow> Inl (TypeError ''Cannot read properties of undefined'')
      | Some contract \<Rightarrow>
          (case cloneNewModifiers nodeId (c_vModifiers contract) modifierNames idRemapping ast of
             (modifierNames', idRemapping', ast1) \<Rightarrow>
               modifiersFrom nodeId bs modifierNames' idRemapping' ast1))"

definition addNonOverridenModifiers ::
  "AST \<Rightarrow> nat \<Rightarrow> ModifierDefinition remapping
     \<Rightarrow> error + ModifierDefinition remapping \<times> AST" where
  "addNonOverridenModifiers ast nodeId idRemapping =
     (case locate ast nodeId of
        None \<Rightarrow> Inl (TypeError ''Cannot read properties of undefined'')
      | Some node \<Rightarrow>
          modifiersFrom nodeId (getBaseContracts node)
            (foldl jsSet_add [] (map m_name (c_vModifiers node))) idRemapping ast)"

subsection \<open>The reference rewriter\<close>

text \<open>
  \<open>updateReferencedDeclarations\<close> reads only the name and the id of the clone a table
  gives, so the walk takes the table as a map from old ids to (name, id). An identifier
  (or identifier path) with a remapped target gets the clone's id and name; a member
  access with a remapped target is replaced by an identifier of the clone, and its
  detached subtree is not part of the result.
\<close>

type_synonym target = "nat \<Rightarrow> (string \<times> nat) option"

fun rewriteExpression :: "target \<Rightarrow> Expression \<Rightarrow> Expression" where
  "rewriteExpression r (Identifier name ref) =
     (case r ref of Some (name', ref') \<Rightarrow> Identifier name' ref' | None \<Rightarrow> Identifier name ref)"
| "rewriteExpression r (MemberAccess e member ref) =
     (case r ref of
        Some (name', ref') \<Rightarrow> Identifier name' ref'
      | None \<Rightarrow> MemberAccess (rewriteExpression r e) member ref)"
| "rewriteExpression r (FunctionCall e es) =
     FunctionCall (rewriteExpression r e) (map (rewriteExpression r) es)"
| "rewriteExpression r (OtherExpression label es) =
     OtherExpression label (map (rewriteExpression r) es)"

fun rewriteStatement :: "target \<Rightarrow> Statement \<Rightarrow> Statement" where
  "rewriteStatement r (ExpressionStatement e) = ExpressionStatement (rewriteExpression r e)"
| "rewriteStatement r (Return e) = Return (map_option (rewriteExpression r) e)"
| "rewriteStatement r (OtherStatement label es ss) =
     OtherStatement label (map (rewriteExpression r) es) (map (rewriteStatement r) ss)"

definition rewriteVariable :: "target \<Rightarrow> VariableDeclaration \<Rightarrow> VariableDeclaration" where
  "rewriteVariable r v = v\<lparr>v_vValue := map_option (rewriteExpression r) (v_vValue v)\<rparr>"

definition rewriteInvocation :: "target \<Rightarrow> ModifierInvocation \<Rightarrow> ModifierInvocation" where
  "rewriteInvocation r mi =
     (case r (mi_referencedDeclaration mi) of
        Some (name', ref') \<Rightarrow>
          mi\<lparr>mi_name := name', mi_referencedDeclaration := ref',
             mi_vArguments := map (rewriteExpression r) (mi_vArguments mi)\<rparr>
      | None \<Rightarrow> mi\<lparr>mi_vArguments := map (rewriteExpression r) (mi_vArguments mi)\<rparr>)"

definition rewriteSpecifier :: "target \<Rightarrow> InheritanceSpecifier \<Rightarrow> InheritanceSpecifier" where
  "rewriteSpecifier r sp =
     (case r (is_referencedDeclaration sp) of
        Some (name', ref') \<Rightarrow>
          sp\<lparr>is_name := name', is_referencedDeclaration := ref',
             is_vArguments := map (rewriteExpression r) (is_vArguments sp)\<rparr>
      | None \<Rightarrow> sp\<lparr>is_vArguments := map (rewriteExpression r) (is_vArguments sp)\<rparr>)"

definition rewriteFunction :: "target \<Rightarrow> FunctionDefinition \<Rightarrow> FunctionDefinition" where
  "rewriteFunction r f =
     f\<lparr>f_vParameters := map (rewriteVariable r) (f_vParameters f),
       f_vReturnParameters := map (rewriteVariable r) (f_vReturnParameters f),
       f_vModifiers := map (rewriteInvocation r) (f_vModifiers f),
       f_vBody := map_option (map (rewriteStatement r)) (f_vBody f)\<rparr>"

definition rewriteModifier :: "target \<Rightarrow> ModifierDefinition \<Rightarrow> ModifierDefinition" where
  "rewriteModifier r m = m\<lparr>m_vBody := map_option (map (rewriteStatement r)) (m_vBody m)\<rparr>"

definition rewriteContract :: "target \<Rightarrow> ContractDefinition \<Rightarrow> ContractDefinition" where
  "rewriteContract r c =
     c\<lparr>c_vInheritanceSpecifiers := map (rewriteSpecifier r) (c_vInheritanceSpecifiers c),
       c_vFunctions := map (rewriteFunction r) (c_vFunctions c),
       c_vStateVariables := map (rewriteVariable r) (c_vStateVariables c),
       c_vModifiers := map (rewriteModifier r) (c_vModifiers c)\<rparr>"

definition updateReferencedDeclarations :: "AST \<Rightarrow> nat \<Rightarrow> target \<Rightarrow> AST" where
  "updateReferencedDeclarations ast nodeId idRemapping =
     modifyContract ast nodeId (rewriteContract idRemapping)"

subsection \<open>The constructor linearizer\<close>

text \<open>The first loop of \<open>solveConstructorInheritance\<close>, over the whole linearized list.\<close>

fun collectConstructors ::
  "AST \<Rightarrow> nat list \<Rightarrow> argsTable \<Rightarrow> FunctionDefinition remapping
     \<Rightarrow> error + argsTable \<times> FunctionDefinition remapping" where
  "collectConstructors ast [] args constructors = Inr (args, constructors)"
| "collectConstructors ast (i # rest) args constructors =
     (case locate ast i of
        None \<Rightarrow> Inl (TypeError ''Cannot read properties of undefined'')
      | Some contract \<Rightarrow>
          collectConstructors ast rest
            (getArguments ast contract (vConstructor contract) args)
            (case vConstructor contract of
               Some constructorFunc \<Rightarrow> constructors(c_id contract \<mapsto> constructorFunc)
             | None \<Rightarrow> constructors))"

definition createFunctionFromConstructor ::
  "FunctionDefinition \<Rightarrow> nat \<Rightarrow> AST \<Rightarrow> FunctionDefinition \<times> AST" where
  "createFunctionFromConstructor constructorFunc i ast =
     (case cloneFunctionDefinition constructorFunc ast of
        (newFunc, ast1) \<Rightarrow>
          (newFunc\<lparr>f_kind := Function,
                  f_name := ''__warp_constructor_'' @ string_of_nat i,
                  f_visibility := Private,
                  f_isConstructor := False\<rparr>, ast1))"

text \<open>The second loop, over the reversed tail of the linearized list; \<open>statements\<close> grows
  at its end.\<close>

fun callConstructors ::
  "nat \<Rightarrow> argsTable \<Rightarrow> FunctionDefinition remapping \<Rightarrow> nat list \<Rightarrow> Statement list \<Rightarrow> AST
     \<Rightarrow> error + Statement list \<times> AST" where
  "callConstructors nodeId args constructors [] statements ast = Inr (statements, ast)"
| "callConstructors nodeId args constructors (contractId # rest) statements ast =
     (case constructors contractId of
        None \<Rightarrow> callConstructors nodeId args constructors rest statements ast
      | Some constructorFunc \<Rightarrow>
          (case createFunctionFromConstructor constructorFunc contractId ast of
             (newFunc, ast1) \<Rightarrow>
               (let argList = (case args contractId of Some a \<Rightarrow> a | None \<Rightarrow> [])
                in if length (f_vParameters constructorFunc) \<noteq> length argList
                   then Inl (AssertionError ''Wrong number of arguments in constructor'')
                   else callConstructors nodeId args constructors rest
                          (statements @ [ExpressionStatement (generateFunctionCall newFunc argList)])
                          (appendFunction ast1 nodeId newFunc))))"

definition createDefaultConstructor :: "ContractDefinition \<Rightarrow> AST \<Rightarrow> FunctionDefinition \<times> AST" where
  "createDefaultConstructor node ast =
     (case reserveId ast of
        (i, ast1) \<Rightarrow>
          (\<lparr>f_id = i, f_scope = c_id node, f_kind = Constructor, f_name = [],
            f_virtual = False, f_visibility = Public, f_stateMutability = NonPayable,
            f_isConstructor = True, f_vParameters = [], f_vReturnParameters = [],
            f_vModifiers = [], f_vBody = None\<rparr>, ast1))"

definition generateBody :: "Statement list \<Rightarrow> FunctionDefinition \<Rightarrow> FunctionDefinition" where
  "generateBody statements constructorFunc = constructorFunc\<lparr>f_vBody := Some statements\<rparr>"

text \<open>The update of the contract's own constructor: the node that \<open>vConstructor\<close> finds,
  the first function of constructor kind.\<close>

fun updateFirst :: "('a \<Rightarrow> bool) \<Rightarrow> ('a \<Rightarrow> 'a) \<Rightarrow> 'a list \<Rightarrow> 'a list" where
  "updateFirst P g [] = []"
| "updateFirst P g (x # xs) = (if P x then g x # xs else x # updateFirst P g xs)"

definition prependStatements :: "Statement list \<Rightarrow> FunctionDefinition \<Rightarrow> FunctionDefinition" where
  "prependStatements statements selfConstructor =
     (case f_vBody selfConstructor of
        None \<Rightarrow> generateBody statements selfConstructor
      | Some body \<Rightarrow> selfConstructor\<lparr>f_vBody := Some (statements @ body)\<rparr>)"

text \<open>
  The last step. When the contract has no constructor, the source builds a default one
  with \<open>createDefaultConstructor\<close> and gives it the statements, and no call makes it a
  child of the contract: the tree gains nothing but the reserved id.
\<close>

definition addConstructorCalls :: "AST \<Rightarrow> nat \<Rightarrow> Statement list \<Rightarrow> error + AST" where
  "addConstructorCalls ast nodeId statements =
     (if length statements > 0
      then (case locate ast nodeId of
              None \<Rightarrow> Inl (TypeError ''Cannot read properties of undefined'')
            | Some node \<Rightarrow>
                (case vConstructor node of
                   Some selfConstructor \<Rightarrow>
                     Inr (modifyContract ast nodeId
                            (\<lambda>c. c\<lparr>c_vFunctions :=
                                     updateFirst (\<lambda>f. f_kind f = Constructor)
                                       (prependStatements statements) (c_vFunctions c)\<rparr>))
                 | None \<Rightarrow>
                     (case createDefaultConstructor node ast of
                        (selfConstructor, ast1) \<Rightarrow>
                          (let detached = generateBody statements selfConstructor
                           in Inr ast1))))
      else Inr ast)"

definition solveConstructorInheritance :: "AST \<Rightarrow> nat \<Rightarrow> error + AST" where
  "solveConstructorInheritance ast nodeId =
     (case locate ast nodeId of
        None \<Rightarrow> Inl (TypeError ''Cannot read properties of undefined'')
      | Some node \<Rightarrow>
          (case collectConstructors ast (c_linearizedBaseContracts node) Map.empty Map.empty of
             Inl e \<Rightarrow> Inl e
           | Inr (args, constructors) \<Rightarrow>
               (case callConstructors nodeId args constructors
                       (rev (tl (c_linearizedBaseContracts node))) [] ast of
                  Inl e \<Rightarrow> Inl e
                | Inr (statements, ast1) \<Rightarrow> addConstructorCalls ast1 nodeId statements)))"

subsection \<open>The pass: \<open>visitContractDefinition\<close> and \<open>map\<close>\<close>

definition targetOfFunctions :: "FunctionDefinition remapping \<Rightarrow> target" where
  "targetOfFunctions m = (\<lambda>i. map_option (\<lambda>f. (f_name f, f_id f)) (m i))"

definition targetOfVariables :: "VariableDeclaration remapping \<Rightarrow> target" where
  "targetOfVariables m = (\<lambda>i. map_option (\<lambda>v. (v_name v, v_id v)) (m i))"

definition targetOfModifiers :: "ModifierDefinition remapping \<Rightarrow> target" where
  "targetOfModifiers m = (\<lambda>i. map_option (\<lambda>d. (m_name d, m_id d)) (m i))"

text \<open>\<open>commonVisit\<close> walks the children with the visitors of the base class, which change
  nothing: the pass overrides \<open>visitContractDefinition\<close> only.\<close>

definition visitContractDefinition :: "AST \<Rightarrow> nat \<Rightarrow> (error + AST) option" where
  "visitContractDefinition ast nodeId =
     (case locate ast nodeId of
        None \<Rightarrow> Some (Inl (TypeError ''Cannot read properties of undefined''))
      | Some node \<Rightarrow>
          if length (c_linearizedBaseContracts node) < 2 then Some (Inr ast)
          else
            (case solveConstructorInheritance ast nodeId of
               Inl e \<Rightarrow> Some (Inl e)
             | Inr ast1 \<Rightarrow>
                 (case addPrivateSuperFunctions ast1 nodeId Map.empty of
                    Inl e \<Rightarrow> Some (Inl e)
                  | Inr (functionRemapping, ast2) \<Rightarrow>
                      Option.bind (addNonoverridenPublicFunctions ast2 nodeId functionRemapping)
                        (\<lambda>r. case r of
                               Inl e \<Rightarrow> Some (Inl e)
                             | Inr ast3 \<Rightarrow>
                                 (case addStorageVariables ast3 nodeId Map.empty of
                                    Inl e \<Rightarrow> Some (Inl e)
                                  | Inr (variableRemapping, ast4) \<Rightarrow>
                                      (case addNonOverridenModifiers ast4 nodeId Map.empty of
                                         Inl e \<Rightarrow> Some (Inl e)
                                       | Inr (modifierRemapping, ast5) \<Rightarrow>
                                           Some (Inr
                                             (updateReferencedDeclarations
                                               (updateReferencedDeclarations
                                                 (updateReferencedDeclarations ast5 nodeId
                                                    (targetOfFunctions functionRemapping))
                                                 nodeId (targetOfVariables variableRemapping))
                                               nodeId (targetOfModifiers modifierRemapping)))))))))"







subsection \<open>Example compilation units\<close>

definition exampleVariable :: "nat \<Rightarrow> string \<Rightarrow> nat \<Rightarrow> VariableDeclaration" where
  "exampleVariable i name scope =
     \<lparr>v_id = i, v_name = name, v_typeString = ''uint256'', v_scope = scope, v_vValue = None\<rparr>"

text \<open>An external view function \<open>name(uint256 p) returns (uint256 r)\<close> with an empty body.\<close>

definition exampleFunction :: "nat \<Rightarrow> string \<Rightarrow> nat \<Rightarrow> FunctionDefinition" where
  "exampleFunction i name scope =
     \<lparr>f_id = i, f_scope = scope, f_kind = Function, f_name = name, f_virtual = False,
      f_visibility = External, f_stateMutability = View, f_isConstructor = False,
      f_vParameters = [exampleVariable (i + 1) ''p'' i],
      f_vReturnParameters = [exampleVariable (i + 2) ''r'' i],
      f_vModifiers = [], f_vBody = Some []\<rparr>"

text \<open>A constructor \<open>constructor(uint256 p)\<close> with one statement.\<close>

definition exampleConstructor :: "nat \<Rightarrow> nat \<Rightarrow> FunctionDefinition" where
  "exampleConstructor i scope =
     \<lparr>f_id = i, f_scope = scope, f_kind = Constructor, f_name = [], f_virtual = False,
      f_visibility = Public, f_stateMutability = NonPayable, f_isConstructor = True,
      f_vParameters = [exampleVariable (i + 1) ''p'' i],
      f_vReturnParameters = [],
      f_vModifiers = [],
      f_vBody = Some [ExpressionStatement (OtherExpression ''Assignment'' [])]\<rparr>"

definition exampleContract ::
  "nat \<Rightarrow> string \<Rightarrow> nat list \<Rightarrow> InheritanceSpecifier list \<Rightarrow> FunctionDefinition list
     \<Rightarrow> VariableDeclaration list \<Rightarrow> ContractDefinition" where
  "exampleContract i name linearized specifiers functions variables =
     \<lparr>c_id = i, c_name = name, c_linearizedBaseContracts = linearized,
      c_vInheritanceSpecifiers = specifiers, c_vFunctions = functions,
      c_vStateVariables = variables, c_vModifiers = []\<rparr>"

text \<open>\<open>contract Base { uint x; uint a; function foo ... }\<close> and
  \<open>contract Derived is Base { uint x; uint b; function bar ... }\<close>.\<close>

definition exampleBase :: ContractDefinition where
  "exampleBase =
     exampleContract 1 ''Base'' [1] [] [exampleFunction 10 ''foo'' 1]
       [exampleVariable 20 ''x'' 1, exampleVariable 21 ''a'' 1]"

definition exampleDerived :: ContractDefinition where
  "exampleDerived =
     exampleContract 2 ''Derived'' [2, 1]
       [\<lparr>is_name = ''Base'', is_referencedDeclaration = 1, is_vArguments = []\<rparr>]
       [exampleFunction 30 ''bar'' 2]
       [exampleVariable 22 ''x'' 2, exampleVariable 23 ''b'' 2]"

definition exampleUnit :: AST where
  "exampleUnit = \<lparr>contracts = [exampleBase, exampleDerived], nextId = 100\<rparr>"

text \<open>Two contracts that have each other as base.\<close>

definition exampleCyclic :: AST where
  "exampleCyclic =
     \<lparr>contracts = [exampleContract 1 ''A'' [1, 2] [] [] [],
                   exampleContract 2 ''B'' [2, 1] [] [] []],
      nextId = 100\<rparr>"

text \<open>\<open>contract Parent { constructor(uint p) {...} }\<close> and \<open>contract Child is Parent(7) { }\<close>:
  the child declares no constructor.\<close>

definition exampleChildless :: AST where
  "exampleChildless =
     \<lparr>contracts =
        [exampleContract 1 ''Parent'' [1] [] [exampleConstructor 40 1] [],
         exampleContract 2 ''Child'' [2, 1]
           [\<lparr>is_name = ''Parent'', is_referencedDeclaration = 1,
             is_vArguments = [OtherExpression ''Literal 7'' []]\<rparr>] [] []],
      nextId = 100\<rparr>"


text \<open>A contract that declares two functions of one name.\<close>

definition exampleAmbiguous :: ContractDefinition where
  "exampleAmbiguous =
     exampleContract 3 ''Twice'' [3] []
       [exampleFunction 50 ''f'' 3, exampleFunction 60 ''f'' 3] []"


subsection \<open>The rounds of \<open>map\<close>\<close>


section \<open>Properties\<close>

lemma recordSpecifier_other:
  "k \<noteq> is_referencedDeclaration specifier \<Longrightarrow> recordSpecifier args specifier k = args k"
  by (simp add: recordSpecifier_def Let_def)




text \<open>
  C10. A contract whose linearized list has fewer than two entries is left as it is:
  \<open>visitContractDefinition\<close> returns at once, and the whole tree, the id counter included,
  is the one it was given.
\<close>

theorem visitContractDefinition_without_bases:
  "locate ast nodeId = Some node \<Longrightarrow> length (c_linearizedBaseContracts node) < 2
     \<Longrightarrow> visitContractDefinition ast nodeId = Some (Inr ast)"
  by (simp add: visitContractDefinition_def)

theorem visitContractDefinition_without_bases_witness:
  "locate exampleUnit 1 = Some exampleBase
   \<and> length (c_linearizedBaseContracts exampleBase) < 2
   \<and> visitContractDefinition exampleUnit 1 = Some (Inr exampleUnit)"
proof -
  have h1: "locate exampleUnit 1 = Some exampleBase" by code_simp
  have h2: "length (c_linearizedBaseContracts exampleBase) < 2" by code_simp
  show ?thesis using h1 h2 visitContractDefinition_without_bases [OF h1 h2] by simp
qed

text \<open>
  C7. \<open>resolveFunctionName\<close> on a contract and a name: when the contract declares exactly
  one function of that name, that function is returned; when it declares more than one,
  the call fails with the \<open>TranspileFailedError\<close> about unique function names; when it
  declares none, the result is that of the call on the first base contract, and no other
  base is looked at.
\<close>

theorem resolveFunctionName_cases:
  "(filter (\<lambda>f. f_name f = functionName) (c_vFunctions node) = [func]
      \<longrightarrow> resolveFunctionName ast node functionName = Some (Inr func))
   \<and> (length (filter (\<lambda>f. f_name f = functionName) (c_vFunctions node)) > 1
      \<longrightarrow> resolveFunctionName ast node functionName
            = Some (Inl (TranspileFailedError
                 (''InheritanceInliner expects unique function names, was IdentifierManger run? Found multiple ''
                    @ functionName @ '' in '' @ c_name node))))
   \<and> (filter (\<lambda>f. f_name f = functionName) (c_vFunctions node) = []
      \<longrightarrow> getBaseContracts node = b1 # bs \<longrightarrow> locate ast b1 = Some base
      \<longrightarrow> resolveFunctionName ast node functionName
            = resolveFunctionName ast base functionName)"
  by (subst resolveFunctionName.simps, subst (2) resolveFunctionName.simps,
      subst (3) resolveFunctionName.simps) simp

theorem resolveFunctionName_cases_witness:
  "filter (\<lambda>f. f_name f = ''foo'') (c_vFunctions exampleBase) = [exampleFunction 10 ''foo'' 1]
   \<and> resolveFunctionName exampleUnit exampleBase ''foo'' = Some (Inr (exampleFunction 10 ''foo'' 1))
   \<and> length (filter (\<lambda>f. f_name f = ''f'') (c_vFunctions exampleAmbiguous)) > 1
   \<and> resolveFunctionName exampleUnit exampleAmbiguous ''f''
       = Some (Inl (TranspileFailedError
            (''InheritanceInliner expects unique function names, was IdentifierManger run? Found multiple ''
               @ ''f'' @ '' in '' @ ''Twice'')))
   \<and> filter (\<lambda>f. f_name f = ''foo'') (c_vFunctions exampleDerived) = []
   \<and> getBaseContracts exampleDerived = [1]
   \<and> locate exampleUnit 1 = Some exampleBase
   \<and> resolveFunctionName exampleUnit exampleDerived ''foo''
       = Some (Inr (exampleFunction 10 ''foo'' 1))"
proof -
  have h1: "filter (\<lambda>f. f_name f = ''foo'') (c_vFunctions exampleBase)
              = [exampleFunction 10 ''foo'' 1]"
    by code_simp
  have h2: "length (filter (\<lambda>f. f_name f = ''f'') (c_vFunctions exampleAmbiguous)) > 1"
    by code_simp
  have h3: "filter (\<lambda>f. f_name f = ''foo'') (c_vFunctions exampleDerived) = []"
    by code_simp
  have h4: "getBaseContracts exampleDerived = [1]" by code_simp
  have h5: "locate exampleUnit 1 = Some exampleBase" by code_simp
  have n: "c_name exampleAmbiguous = ''Twice''" by code_simp
  note r1 = resolveFunctionName_cases
      [of "''foo''" exampleBase "exampleFunction 10 ''foo'' 1" exampleUnit, THEN conjunct1]
  note r2 = resolveFunctionName_cases
      [of "''f''" exampleAmbiguous _ exampleUnit, THEN conjunct2, THEN conjunct1]
  note r3 = resolveFunctionName_cases
      [of "''foo''" exampleDerived _ exampleUnit 1 "[]" exampleBase,
       THEN conjunct2, THEN conjunct2]
  show ?thesis using h1 h2 h3 h4 h5 n r1 r2 r3 by simp
qed




lemma createDelegatingFunction_not_member:
  "f_kind funcToCopy \<noteq> Function \<Longrightarrow>
     createDelegatingFunction funcToCopy delegate scope ast
       = Inl (AssertionError (''Attempted to copy non-member function '' @ f_name funcToCopy))"
  by (simp add: createDelegatingFunction_def split: prod.splits)

lemma createDelegatingFunction_flagged_member:
  "f_kind funcToCopy = Function \<Longrightarrow> f_isConstructor funcToCopy \<Longrightarrow>
     createDelegatingFunction funcToCopy delegate scope ast
       = Inl (NotSupportedYetError ''Inherited constructors is not implemented yet'')"
  by (simp add: createDelegatingFunction_def split: prod.splits)


subsection \<open>The storage flattener\<close>

lemma locate_nextId [simp]: "locate (ast\<lparr>nextId := n\<rparr>) i = locate ast i"
  by (simp add: locate_def)



lemma nextId_modifyContract [simp]: "nextId (modifyContract ast i g) = nextId ast"
  by (simp add: modifyContract_def)


























subsection \<open>The constructor linearizer\<close>

text \<open>
  C4, at \<open>contract Parent { constructor(uint p) {...} }\<close>,
  \<open>contract Child is Parent(7) { }\<close>. The call statement for \<open>Parent\<close>'s constructor clone
  is built, and since \<open>Child\<close> declares no constructor the statements go into the default
  constructor that \<open>createDefaultConstructor\<close> returns; nothing appends that constructor
  to \<open>Child\<close>. After \<open>solveConstructorInheritance\<close>, and after the whole
  \<open>visitContractDefinition\<close>, \<open>Child\<close> has no constructor: its only function is the private
  clone \<open>__warp_constructor_1\<close>, which nothing calls.
\<close>

theorem solveConstructorInheritance_default_constructor_detached:
  "map_option vConstructor (locate exampleChildless 1) = Some (Some (exampleConstructor 40 1))
   \<and> map_option vConstructor (locate exampleChildless 2) = Some None
   \<and> map_sum id (\<lambda>a. map_option (\<lambda>c. (vConstructor c, map f_name (c_vFunctions c))) (locate a 2))
        (solveConstructorInheritance exampleChildless 2)
       = Inr (Some (None, [''__warp_constructor_1'']))
   \<and> map_option
        (map_sum id (\<lambda>a. map_option
           (\<lambda>c. (vConstructor c, map (\<lambda>f. (f_name f, f_kind f, f_vBody f)) (c_vFunctions c)))
           (locate a 2)))
        (visitContractDefinition exampleChildless 2)
       = Some (Inr (Some (None,
            [(''__warp_constructor_1'', Function,
              Some [ExpressionStatement (OtherExpression ''Assignment'' [])])])))"
  by code_simp

end
